theory Spec2Isabelle
  imports Main "HOL-Library.Word"
begin

section \<open>Bytes, strings and exceptions\<close>

text \<open>
  A Python \<open>bytes\<close> value is a list of 8-bit words. A Python \<open>str\<close> is a
  \<open>string\<close>; \<open>encode\<close> is \<open>str.encode()\<close> (the labels and literals of the
  program are ASCII, one byte per character).
\<close>

type_synonym byte = "8 word"
type_synonym bytes = "byte list"

definition encode :: "string \<Rightarrow> bytes" where
  "encode s = map of_char s"

text \<open>
  An exception is its class, as far as the \<open>except\<close> clauses of the program tell
  classes apart, and its message \<open>str(e)\<close>. A socket call returns \<open>Inr\<close> its
  value or \<open>Inl\<close> the exception it raises.
\<close>

datatype exn_class = SocketTimeout | ConnectionRefusedError | StructError | OtherException

type_synonym exn = "exn_class \<times> string"

subsection \<open>\<open>struct.pack('!H', n)\<close> and \<open>struct.unpack('!H', b)[0]\<close>\<close>

text \<open>
  \<open>struct.pack('!H', n)\<close> is the 2-byte big-endian rendering of \<open>n\<close>; it raises
  \<open>struct.error\<close> when \<open>n\<close> is not in \<open>0..65535\<close>.
\<close>

definition pack_H :: "nat \<Rightarrow> exn + bytes" where
  "pack_H n =
     (if n \<le> 65535 then Inr [word_of_nat (n div 256), word_of_nat (n mod 256)]
      else Inl (StructError,
             [CHR 0x27] @ ''H'' @ [CHR 0x27] @ '' format requires 0 <= number <= 65535''))"

text \<open>\<open>unpack_H\<close> is only called on exactly two bytes (the caller checks the length).\<close>

fun unpack_H :: "bytes \<Rightarrow> nat" where
  "unpack_H [hi, lo] = unat hi * 256 + unat lo"
| "unpack_H _ = 0"

section \<open>\<open>dns_test_server.py\<close>\<close>

subsection \<open>The inbound side of a TCP connection\<close>

text \<open>
  What the peer delivers, in arrival order: each element is a segment of bytes that
  becomes readable at once, or an exception that the next \<open>recv\<close> raises. The end
  of the list is the peer's orderly close, where \<open>recv\<close> returns \<open>b''\<close>.
  \<open>conn.recv(n)\<close> returns at most \<open>n\<close> bytes of the segment at the front and leaves
  the rest of it for the next call; \<open>conn.recv(0)\<close> returns \<open>b''\<close> at once.
\<close>

type_synonym conn = "(exn + bytes) list"

definition recv :: "nat \<Rightarrow> conn \<Rightarrow> (exn + bytes) \<times> conn" where
  "recv n c =
     (if n = 0 then (Inr [], c)
      else case c of
             [] \<Rightarrow> (Inr [], [])
           | Inl e # cs \<Rightarrow> (Inl e, cs)
           | Inr seg # cs \<Rightarrow>
               (Inr (take n seg), if length seg \<le> n then cs else Inr (drop n seg) # cs))"

subsection \<open>Response synthesis (lines 73--95 and 118--137)\<close>

text \<open>
  Both DNS responders build the response with the same statements: the transaction id
  \<open>query[:2]\<close>, fixed flags and counts, the question section \<open>query[12:]\<close> and a
  fixed answer record. Python slices never raise: on a short input they are shorter
  or empty, as \<open>take\<close> and \<open>drop\<close> are.
\<close>

definition answer :: bytes where
  "answer = [0xc0, 0x0c,  0x00, 0x01,  0x00, 0x01,  0x00, 0x00, 0x01, 0x2c,
             0x00, 0x04,  0xac, 0xd9, 0x0e, 0xce]"

definition build_dns_response :: "bytes \<Rightarrow> bytes" where
  "build_dns_response query =
     (let transaction_id = take 2 query;
          response_flags = [0x81, 0x80];
          questions = [0x00, 0x01];
          answers = [0x00, 0x01];
          authority = [0x00, 0x00];
          additional = [0x00, 0x00];
          question_section = drop 12 query
      in transaction_id @ response_flags @ questions @ answers @ authority @ additional
           @ question_section @ answer)"

subsection \<open>\<open>handle_dns_tcp\<close>\<close>

text \<open>
  What one run of a handler did: it returned early on a bad length prefix, it handed
  bytes to \<open>sendall\<close>/\<open>sendto\<close> which returned, or an exception was caught and
  printed (nothing is sent after it).
\<close>

datatype outcome = InvalidLengthPrefix | Sent bytes | Caught exn

text \<open>
  Lines 58--69: one \<open>recv(2)\<close> for the prefix, then one \<open>recv(query_length)\<close> for the
  query. The result is the early return, an exception, or the query as read, with the
  rest of the stream.
\<close>

definition read_tcp_length_prefixed :: "conn \<Rightarrow> (outcome + bytes) \<times> conn" where
  "read_tcp_length_prefixed c =
     (case recv 2 c of
        (Inl e, c1) \<Rightarrow> (Inl (Caught e), c1)
      | (Inr length_data, c1) \<Rightarrow>
          if length length_data \<noteq> 2 then (Inl InvalidLengthPrefix, c1)
          else
            (let query_length = unpack_H length_data in
             case recv query_length c1 of
               (Inl e, c2) \<Rightarrow> (Inl (Caught e), c2)
             | (Inr query, c2) \<Rightarrow> (Inr query, c2)))"

text \<open>Line 98: the response behind its own length prefix.\<close>

definition wrap_tcp_length_prefix :: "bytes \<Rightarrow> exn + bytes" where
  "wrap_tcp_length_prefix payload =
     (case pack_H (length payload) of Inl e \<Rightarrow> Inl e | Inr p \<Rightarrow> Inr (p @ payload))"

text \<open>\<open>send_res\<close> is what \<open>conn.sendall\<close> does: it returns or raises.\<close>

definition handle_dns_tcp :: "conn \<Rightarrow> (exn + unit) \<Rightarrow> outcome" where
  "handle_dns_tcp c send_res =
     (case fst (read_tcp_length_prefixed c) of
        Inl out \<Rightarrow> out
      | Inr query \<Rightarrow>
          (case wrap_tcp_length_prefix (build_dns_response query) of
             Inl e \<Rightarrow> Caught e
           | Inr framed \<Rightarrow>
               (case send_res of Inl e \<Rightarrow> Caught e | Inr _ \<Rightarrow> Sent framed)))"

subsection \<open>\<open>dns_udp_server\<close>\<close>

text \<open>
  One turn of the loop: \<open>recvfrom(512)\<close> returns a datagram cut to 512 bytes or
  raises; the response goes out with \<open>sendto\<close>. The loop handles the datagrams one
  after the other, and an exception ends only its own turn.
\<close>

definition dns_udp_turn :: "(exn + bytes) \<Rightarrow> (exn + unit) \<Rightarrow> outcome" where
  "dns_udp_turn recv_res send_res =
     (case recv_res of
        Inl e \<Rightarrow> Caught e
      | Inr dgram \<Rightarrow>
          (let data = take 512 dgram; response = build_dns_response data in
           case send_res of Inl e \<Rightarrow> Caught e | Inr _ \<Rightarrow> Sent response))"

definition dns_udp_server :: "((exn + bytes) \<times> (exn + unit)) list \<Rightarrow> outcome list" where
  "dns_udp_server turns = map (\<lambda>(r, s). dns_udp_turn r s) turns"

subsection \<open>\<open>handle_tcp_client\<close>\<close>

text \<open>
  The plain TCP echo of this server: one \<open>recv(4096)\<close>, then \<open>b"ECHO:" + data\<close>.
  \<open>test_name\<close> is only printed.
\<close>

definition handle_tcp_client :: "conn \<Rightarrow> (exn + unit) \<Rightarrow> string \<Rightarrow> outcome" where
  "handle_tcp_client c send_res test_name =
     (case fst (recv 4096 c) of
        Inl e \<Rightarrow> Caught e
      | Inr data \<Rightarrow>
          (case send_res of Inl e \<Rightarrow> Caught e | Inr _ \<Rightarrow> Sent (encode ''ECHO:'' @ data)))"

section \<open>The literal query of \<open>test_real_dns_query\<close> (\<open>test_dns_blocking.py\<close>)\<close>

definition real_dns_query :: bytes where
  "real_dns_query = [0xaa, 0xbb,  0x01, 0x00,  0x00, 0x01,  0x00, 0x00,  0x00, 0x00,  0x00, 0x00,
                0x06, 0x67, 0x6f, 0x6f, 0x67, 0x6c, 0x65,  0x03, 0x63, 0x6f, 0x6d,  0x00,
                0x00, 0x01,  0x00, 0x01]"

definition real_tcp_dns_query :: bytes where
  "real_tcp_dns_query = [0x00, 0x1c] @ real_dns_query"

section \<open>\<open>protocol_tester_client.py\<close>\<close>

subsection \<open>\<open>test_protocol\<close>\<close>

text \<open>
  The \<open>result\<close> dictionary. \<open>status\<close> is a Python string, so it is one here.
\<close>

record result =
  port :: nat
  proto :: string
  type' :: string
  sent_bytes :: nat
  status :: string
  recv_bytes :: nat
  time_ms :: int

text \<open>
  What the network does to one probe: the outcome of \<open>connect\<close> (TCP only), of
  \<open>sendall\<close>/\<open>sendto\<close>, and of \<open>recv\<close>/\<open>recvfrom\<close> (the bytes the peer has
  delivered, or the exception raised). \<open>host\<close> and \<open>timeout\<close> only select this
  behaviour. \<open>elapsed_ms\<close> is the value of \<open>int((time.time() - start) * 1000)\<close> at
  line 53. Creating, configuring and closing the socket do not raise.
\<close>

record net =
  connecting :: "exn + unit"
  sending :: "exn + unit"
  receiving :: "exn + bytes"
  elapsed_ms :: int

text \<open>
  Lines 33--38 and 45--50: the inner \<open>try\<close> catches only \<open>socket.timeout\<close>; any
  other exception of the receive leaves the block with \<open>result\<close> unchanged.
\<close>

definition receive :: "net \<Rightarrow> result \<Rightarrow> exn + result" where
  "receive n result =
     (case receiving n of
        Inr delivered \<Rightarrow>
          (let response = take 4096 delivered
           in Inr (result\<lparr>recv_bytes := length response, status := ''SUCCESS''\<rparr>))
      | Inl (SocketTimeout, msg) \<Rightarrow> Inr (result\<lparr>status := ''NO_RESPONSE''\<rparr>)
      | Inl e \<Rightarrow> Inl e)"

definition tcp_branch :: "net \<Rightarrow> result \<Rightarrow> exn + result" where
  "tcp_branch n result =
     (case connecting n of
        Inl e \<Rightarrow> Inl e
      | Inr _ \<Rightarrow> (case sending n of Inl e \<Rightarrow> Inl e | Inr _ \<Rightarrow> receive n result))"

definition udp_branch :: "net \<Rightarrow> result \<Rightarrow> exn + result" where
  "udp_branch n result =
     (case sending n of Inl e \<Rightarrow> Inl e | Inr _ \<Rightarrow> receive n result)"

text \<open>
  Two words for the stages of a probe: the connection is made (a UDP probe makes none),
  and the payload is sent.
\<close>

definition connected :: "net \<Rightarrow> string \<Rightarrow> bool" where
  "connected n the_proto = (the_proto = ''tcp'' \<longrightarrow> connecting n = Inr ())"

definition sent :: "net \<Rightarrow> string \<Rightarrow> bool" where
  "sent n the_proto = (connected n the_proto \<and> sending n = Inr ())"

definition test_protocol :: "net \<Rightarrow> nat \<Rightarrow> string \<Rightarrow> string \<Rightarrow> bytes \<Rightarrow> result" where
  "test_protocol n the_port the_proto packet_type data =
     (let result = \<lparr>port = the_port, proto = the_proto, type' = packet_type,
                     sent_bytes = length data, status = ''UNKNOWN'',
                     recv_bytes = 0, time_ms = 0\<rparr>
      in case (if the_proto = ''tcp'' then tcp_branch n result else udp_branch n result) of
           Inr result1 \<Rightarrow> result1\<lparr>time_ms := elapsed_ms n\<rparr>
         | Inl (ConnectionRefusedError, msg) \<Rightarrow> result\<lparr>status := ''REFUSED''\<rparr>
         | Inl (SocketTimeout, msg) \<Rightarrow> result\<lparr>status := ''TIMEOUT''\<rparr>
         | Inl (cls, msg) \<Rightarrow> result\<lparr>status := ''ERROR:'' @ take 30 msg\<rparr>)"

subsection \<open>Probe payloads\<close>

definition make_ssh_banner :: bytes where
  "make_ssh_banner = encode ''SSH-2.0-OpenSSH_8.2p1 Ubuntu-4ubuntu0.5'' @ [0x0d, 0x0a]"

text \<open>\<open>random\<close> is the value of \<open>os.urandom(32)\<close>, 32 bytes.\<close>

definition handshake :: "bytes \<Rightarrow> bytes" where
  "handshake random =
     (let handshake_type = [0x01];
          hs_length = [0x00, 0x00, 0x3c];
          client_version = [0x03, 0x03];
          session_id_len = [0x00];
          cipher_suites_len = [0x00, 0x02];
          cipher_suites = [0x00, 0x2f];
          compression_methods_len = [0x01];
          compression_methods = [0x00]
      in handshake_type @ hs_length @ client_version @ random @ session_id_len
           @ cipher_suites_len @ cipher_suites @ compression_methods_len
           @ compression_methods)"

definition make_https_clienthello :: "bytes \<Rightarrow> bytes" where
  "make_https_clienthello random =
     (let content_type = [0x16];
          version = [0x03, 0x01];
          length' = [0x00, 0x40]
      in content_type @ version @ length' @ take 64 (handshake random))"

text \<open>
  Reading the two length fields of a record back, as a TLS parser does: the 2-byte
  record length at offset 3 and the 3-byte handshake length at offset 6, with the
  numbers of bytes that really follow each field.
\<close>

definition be_nat :: "bytes \<Rightarrow> nat" where
  "be_nat bs = foldl (\<lambda>acc b. acc * 256 + unat b) 0 bs"

definition record_length_field :: "bytes \<Rightarrow> nat" where
  "record_length_field r = be_nat (take 2 (drop 3 r))"

definition record_body_size :: "bytes \<Rightarrow> nat" where
  "record_body_size r = length (drop 5 r)"

definition handshake_length_field :: "bytes \<Rightarrow> nat" where
  "handshake_length_field r = be_nat (take 3 (drop 6 r))"

definition handshake_body_size :: "bytes \<Rightarrow> nat" where
  "handshake_body_size r = length (drop 9 r)"

subsection \<open>The analysis of \<open>run_tests\<close> (lines 170--200)\<close>

text \<open>
  The printed lines hold three characters outside ASCII, written here as their UTF-8
  bytes: the check mark, the arrow and the dash.
\<close>

definition check_mark :: string where
  "check_mark = [CHR 0xE2, CHR 0x9C, CHR 0x93]"

definition arrow :: string where
  "arrow = [CHR 0xE2, CHR 0x86, CHR 0x92]"

definition em_dash :: string where
  "em_dash = [CHR 0xE2, CHR 0x80, CHR 0x94]"

text \<open>The default diagnosis that the specification names; the program has no such line.\<close>

definition inconclusive :: string where
  "inconclusive = ''inconclusive '' @ em_dash @ '' see raw results''"

text \<open>
  \<open>tests\<close> is the list of \<open>(name, result)\<close> pairs; \<open>run_tests\<close> has appended ten
  of them when the analysis reads \<open>tests[0]\<close> to \<open>tests[8]\<close>. Each function returns
  the lines its \<open>if\<close>/\<open>elif\<close> chain prints.
\<close>

definition dns_analysis :: "(string \<times> result) list \<Rightarrow> string list" where
  "dns_analysis tests =
     (let dns_tcp_works = (status (snd (tests ! 0)) = ''SUCCESS'');
          dns_udp_works = (status (snd (tests ! 1)) = ''SUCCESS'');
          dns_tcp_rand = (status (snd (tests ! 2)) = ''SUCCESS'')
      in if dns_udp_works \<and> \<not> dns_tcp_works then
           [check_mark @ '' DNS UDP works, TCP DNS fails '' @ arrow
              @ '' Iran blocks TCP on port 53'']
         else if dns_tcp_works \<and> \<not> dns_tcp_rand then
           [check_mark @ '' Valid DNS works, random fails '' @ arrow
              @ '' DPI validates DNS packet structure'']
         else if dns_tcp_works \<and> dns_tcp_rand then
           [check_mark @ '' Both valid and random DNS work '' @ arrow
              @ '' Port 53 TCP is open'']
         else [])"

definition ssh_analysis :: "(string \<times> result) list \<Rightarrow> string list" where
  "ssh_analysis tests =
     (let ssh_works = (status (snd (tests ! 4)) = ''SUCCESS'');
          ssh_rand = (status (snd (tests ! 5)) = ''SUCCESS'')
      in if ssh_works \<and> \<not> ssh_rand then
           [check_mark @ '' SSH banner works, random fails '' @ arrow
              @ '' DPI validates SSH protocol'']
         else if ssh_works \<and> ssh_rand then
           [check_mark @ '' Both SSH banner and random work '' @ arrow
              @ '' Port 22 TCP is open'']
         else [])"

definition https_analysis :: "(string \<times> result) list \<Rightarrow> string list" where
  "https_analysis tests =
     (let https_works = (status (snd (tests ! 7)) = ''SUCCESS'');
          https_rand = (status (snd (tests ! 8)) = ''SUCCESS'')
      in if https_works \<and> \<not> https_rand then
           [check_mark @ '' TLS hello works, random fails '' @ arrow
              @ '' DPI validates TLS handshake'']
         else if https_works \<and> https_rand then
           [check_mark @ '' Both TLS and random work '' @ arrow
              @ '' Port 443 TCP is open'']
         else [])"

definition analysis :: "(string \<times> result) list \<Rightarrow> string list" where
  "analysis tests = dns_analysis tests @ ssh_analysis tests @ https_analysis tests"

text \<open>
  Lines 116--150: the ten probes, in order. \<open>nets i\<close> is what the network does to
  probe \<open>i\<close>, \<open>dns_query\<close> the value of \<open>make_dns_query()\<close>, \<open>urandom64 i\<close> the
  \<open>i\<close>-th value of \<open>os.urandom(64)\<close>, \<open>random\<close> that of \<open>os.urandom(32)\<close>. The
  \<open>struct.error\<close> of line 121 is not caught.
\<close>

definition run_tests ::
  "(nat \<Rightarrow> net) \<Rightarrow> bytes \<Rightarrow> (nat \<Rightarrow> bytes) \<Rightarrow> bytes \<Rightarrow> exn + (string \<times> result) list" where
  "run_tests nets dns_query urandom64 random =
     (case wrap_tcp_length_prefix dns_query of
        Inl e \<Rightarrow> Inl e
      | Inr dns_tcp \<Rightarrow>
          (let ssh_banner = make_ssh_banner;
               tls_hello = make_https_clienthello random
           in Inr
             [(''DNS TCP'', test_protocol (nets 0) 53 ''tcp'' ''DNS_QUERY'' dns_tcp),
              (''DNS UDP'', test_protocol (nets 1) 53 ''udp'' ''DNS_QUERY'' dns_query),
              (''DNS TCP (random)'', test_protocol (nets 2) 53 ''tcp'' ''RANDOM'' (urandom64 0)),
              (''DNS UDP (random)'', test_protocol (nets 3) 53 ''udp'' ''RANDOM'' (urandom64 1)),
              (''SSH:22 TCP'', test_protocol (nets 4) 22 ''tcp'' ''SSH_BANNER'' ssh_banner),
              (''SSH:22 (random)'', test_protocol (nets 5) 22 ''tcp'' ''RANDOM'' (urandom64 2)),
              (''SSH:2222 TCP'', test_protocol (nets 6) 2222 ''tcp'' ''SSH_BANNER'' ssh_banner),
              (''HTTPS:443'', test_protocol (nets 7) 443 ''tcp'' ''TLS_HELLO'' tls_hello),
              (''HTTPS:443 (random)'', test_protocol (nets 8) 443 ''tcp'' ''RANDOM'' (urandom64 3)),
              (''HTTPS:8443'', test_protocol (nets 9) 8443 ''tcp'' ''TLS_HELLO'' tls_hello)]))"

section \<open>The analysis of \<open>test_dns_blocking.py\<close> (lines 234--248)\<close>

text \<open>
  \<open>results\<close> holds one boolean per test. Every matching rule prints its finding and a
  line of explanation; the \<open>else\<close> prints one line.
\<close>

record results =
  tcp_echo :: bool
  real_dns_tcp :: bool
  fake_dns :: bool
  encrypted :: bool
  udp_dns :: bool

definition blocking_analysis :: "results \<Rightarrow> string list" where
  "blocking_analysis results =
     (if tcp_echo results \<and> \<not> real_dns_tcp results then
        [arrow @ '' TCP connection works, but real DNS queries fail'',
         ''  Likely: DPI inspecting DNS packet format'']
      else if real_dns_tcp results \<and> \<not> fake_dns results then
        [arrow @ '' Real DNS works, fake DNS fails'',
         ''  Likely: DPI validating DNS packet structure'']
      else if real_dns_tcp results \<and> \<not> encrypted results then
        [arrow @ '' DNS works, encrypted data fails'',
         ''  Likely: DPI detecting high entropy / encryption'']
      else if udp_dns results \<and> \<not> real_dns_tcp results then
        [arrow @ '' UDP DNS works, TCP DNS fails'',
         ''  Likely: Iran blocks TCP on port 53 (expects UDP)'']
      else [arrow @ '' See test results above for patterns''])"

section \<open>\<open>multiport_analyzer.py\<close>\<close>

subsection \<open>\<open>bytes.hex()\<close> and \<open>str\<close> of a port number\<close>

text \<open>The digit characters; both functions are only used below their base.\<close>

definition hex_digit :: "nat \<Rightarrow> char" where
  "hex_digit d = ''0123456789abcdef'' ! d"

definition dec_digit :: "nat \<Rightarrow> char" where
  "dec_digit d = ''0123456789'' ! d"

definition hex :: "bytes \<Rightarrow> string" where
  "hex bs = concat (map (\<lambda>b. [hex_digit (unat b div 16), hex_digit (unat b mod 16)]) bs)"

fun str_nat :: "nat \<Rightarrow> string" where
  "str_nat n =
     (if n < 10 then [dec_digit n] else str_nat (n div 10) @ [dec_digit (n mod 10)])"

declare str_nat.simps [simp del]

subsection \<open>\<open>log_connection\<close>\<close>

text \<open>
  An entry of the global \<open>connection_log\<close>. \<open>client\<close> holds \<open>str(client_addr)\<close>;
  the handlers below are given that string.
\<close>

record entry =
  timestamp :: string
  log_port :: nat
  protocol :: string
  client :: string
  data_len :: nat
  data_hex :: string
  log_status :: string

text \<open>
  The only writer of the log: it appends one entry. \<open>now\<close> is the value of
  \<open>datetime.now().isoformat()\<close> at the call.
\<close>

definition log_connection ::
  "string \<Rightarrow> nat \<Rightarrow> string \<Rightarrow> string \<Rightarrow> nat \<Rightarrow> string \<Rightarrow> string \<Rightarrow> entry list \<Rightarrow> entry list" where
  "log_connection now the_port the_protocol client_addr the_len the_hex the_status connection_log =
     connection_log @
       [\<lparr>timestamp = now, log_port = the_port, protocol = the_protocol, client = client_addr,
         data_len = the_len, data_hex = the_hex, log_status = the_status\<rparr>]"

subsection \<open>\<open>handle_tcp\<close> and one turn of \<open>udp_listener\<close>\<close>

text \<open>
  A handler returns the bytes it has handed to a successful \<open>sendall\<close>/\<open>sendto\<close>,
  if any, and the log after it. \<open>now1\<close> and \<open>now2\<close> are the clock at its first and
  second call of \<open>log_connection\<close>.
\<close>

definition handle_tcp ::
  "conn \<Rightarrow> (exn + unit) \<Rightarrow> string \<Rightarrow> string \<Rightarrow> string \<Rightarrow> nat \<Rightarrow> string \<Rightarrow> entry list
     \<Rightarrow> bytes option \<times> entry list" where
  "handle_tcp c send_res now1 now2 addr the_port protocol_name connection_log =
     (let on_exn = (\<lambda>now e lg.
            case e of
              (SocketTimeout, msg) \<Rightarrow>
                log_connection now the_port (''TCP-'' @ protocol_name) addr 0 [] ''TIMEOUT'' lg
            | (cls, msg) \<Rightarrow>
                log_connection now the_port (''TCP-'' @ protocol_name) addr 0 []
                  (''ERROR:'' @ msg) lg)
      in case fst (recv 4096 c) of
           Inl e \<Rightarrow> (None, on_exn now1 e connection_log)
         | Inr data \<Rightarrow>
             (let the_hex = (if data \<noteq> [] then hex data else []);
                  log1 = log_connection now1 the_port (''TCP-'' @ protocol_name) addr
                           (length data) the_hex ''RECEIVED'' connection_log
              in if data \<noteq> [] then
                   (let response = encode (''ECHO:'' @ protocol_name @ '':'') @ data
                    in case send_res of
                         Inl e \<Rightarrow> (None, on_exn now2 e log1)
                       | Inr _ \<Rightarrow>
                           (Some response,
                            log_connection now2 the_port (''TCP-'' @ protocol_name) addr
                              (length response) [] ''SENT_ECHO'' log1))
                 else (None, log1)))"

text \<open>
  In the UDP loop an exception of \<open>recvfrom\<close> or \<open>sendto\<close> is printed, not logged.
\<close>

definition udp_turn ::
  "(exn + bytes \<times> string) \<Rightarrow> (exn + unit) \<Rightarrow> string \<Rightarrow> string \<Rightarrow> nat \<Rightarrow> string \<Rightarrow> entry list
     \<Rightarrow> bytes option \<times> entry list" where
  "udp_turn recv_res send_res now1 now2 the_port protocol_name connection_log =
     (case recv_res of
        Inl e \<Rightarrow> (None, connection_log)
      | Inr (dgram, addr) \<Rightarrow>
          (let data = take 4096 dgram;
               the_hex = (if data \<noteq> [] then hex data else []);
               log1 = log_connection now1 the_port (''UDP-'' @ protocol_name) addr
                        (length data) the_hex ''RECEIVED'' connection_log
           in if data \<noteq> [] then
                (let response = encode (''ECHO:'' @ protocol_name @ '':'') @ data
                 in case send_res of
                      Inl e \<Rightarrow> (None, log1)
                    | Inr _ \<Rightarrow>
                        (Some response,
                         log_connection now2 the_port (''UDP-'' @ protocol_name) addr
                           (length response) [] ''SENT_ECHO'' log1))
              else (None, log1)))"

subsection \<open>\<open>dump_stats\<close>\<close>

text \<open>
  One report (lines 113--120): \<open>stats\<close> starts empty and the loop visits the log in
  order. The dictionary is a map from the key to its bucket.
\<close>

record bucket =
  count :: nat
  bytes :: nat
  clients :: "string set"

definition key :: "entry \<Rightarrow> string" where
  "key e = protocol e @ '':'' @ str_nat (log_port e)"

definition add_entry :: "entry \<Rightarrow> (string \<rightharpoonup> bucket) \<Rightarrow> (string \<rightharpoonup> bucket)" where
  "add_entry e stats =
     (let k = key e;
          stats1 = (if stats k = None
                    then stats(k \<mapsto> \<lparr>count = 0, bytes = 0, clients = {}\<rparr>) else stats)
      in case stats1 k of
           None \<Rightarrow> stats1
         | Some b \<Rightarrow>
             stats1(k \<mapsto> b\<lparr>count := count b + 1, bytes := bytes b + data_len e,
                              clients := insert (client e) (clients b)\<rparr>))"

definition dump_stats :: "entry list \<Rightarrow> (string \<rightharpoonup> bucket)" where
  "dump_stats connection_log = fold add_entry connection_log Map.empty"

text \<open>The logged events that count for one key, in log order.\<close>

definition events_of :: "string \<Rightarrow> entry list \<Rightarrow> entry list" where
  "events_of k connection_log = filter (\<lambda>e. key e = k) connection_log"

section \<open>Example inputs\<close>

text \<open>Behaviours of the network towards one probe, used to run the client model.\<close>

definition refusing :: net where
  "refusing = \<lparr>connecting = Inl (ConnectionRefusedError, ''[Errno 111] Connection refused''),
      sending = Inr (), receiving = Inr [], elapsed_ms = 3\<rparr>"

definition blackhole :: net where
  "blackhole = \<lparr>connecting = Inl (SocketTimeout, ''timed out''),
      sending = Inr (), receiving = Inr [], elapsed_ms = 5003\<rparr>"

definition unreachable :: net where
  "unreachable =
     \<lparr>connecting = Inl (OtherException, ''[Errno 113] No route to host (EHOSTUNREACH)''),
      sending = Inr (), receiving = Inr [], elapsed_ms = 3\<rparr>"

definition silent :: net where
  "silent = \<lparr>connecting = Inr (), sending = Inr (),
      receiving = Inl (SocketTimeout, ''timed out''), elapsed_ms = 5004\<rparr>"

definition echoing :: net where
  "echoing = \<lparr>connecting = Inr (), sending = Inr (),
      receiving = Inr [0x45, 0x43, 0x48, 0x4f], elapsed_ms = 40\<rparr>"

definition closing_peer :: net where
  "closing_peer =
     \<lparr>connecting = Inr (), sending = Inr (), receiving = Inr [], elapsed_ms = 12\<rparr>"

text \<open>
  A peer that accepts and then resets the connection: \<open>recv\<close> raises
  \<open>ConnectionResetError\<close>, which no \<open>except\<close> clause of the program names.
\<close>

definition resetting :: net where
  "resetting = \<lparr>connecting = Inr (), sending = Inr (),
      receiving = Inl (OtherException, ''[Errno 104] Connection reset by peer''),
      elapsed_ms = 2\<rparr>"

text \<open>A path that lets nothing through: no connection is made and no datagram answered.\<close>

definition blocked :: net where
  "blocked = \<lparr>connecting = Inl (SocketTimeout, ''timed out''), sending = Inr (),
      receiving = Inl (SocketTimeout, ''timed out''), elapsed_ms = 5003\<rparr>"

text \<open>A log of three events, two of them under the key \<open>TCP-TEST:5353\<close>.\<close>

definition example_log :: "entry list" where
  "example_log =
     log_connection ''2025-01-01T00:00:02'' 5353 ''TCP-TEST'' ''10.0.0.2'' 7 '''' ''SENT_ECHO''
       (log_connection ''2025-01-01T00:00:01'' 22 ''TCP-SSH'' ''10.0.0.1'' 0 '''' ''TIMEOUT''
         (log_connection ''2025-01-01T00:00:00'' 5353 ''TCP-TEST'' ''10.0.0.1'' 2 ''4142''
            ''RECEIVED'' []))"

text \<open>
  The report of \<open>run_tests\<close> on a path where only the UDP DNS query is answered.
\<close>

definition example_report :: "(string \<times> result) list" where
  "example_report =
     [(''DNS TCP'', test_protocol blocked 53 ''tcp'' ''DNS_QUERY'' real_tcp_dns_query),
      (''DNS UDP'', test_protocol echoing 53 ''udp'' ''DNS_QUERY'' real_dns_query),
      (''DNS TCP (random)'', test_protocol blocked 53 ''tcp'' ''RANDOM'' (replicate 64 0)),
      (''DNS UDP (random)'', test_protocol blocked 53 ''udp'' ''RANDOM'' (replicate 64 0)),
      (''SSH:22 TCP'', test_protocol blocked 22 ''tcp'' ''SSH_BANNER'' make_ssh_banner),
      (''SSH:22 (random)'', test_protocol blocked 22 ''tcp'' ''RANDOM'' (replicate 64 0)),
      (''SSH:2222 TCP'', test_protocol blocked 2222 ''tcp'' ''SSH_BANNER'' make_ssh_banner),
      (''HTTPS:443'', test_protocol blocked 443 ''tcp'' ''TLS_HELLO''
         (make_https_clienthello (replicate 32 0))),
      (''HTTPS:443 (random)'', test_protocol blocked 443 ''tcp'' ''RANDOM'' (replicate 64 0)),
      (''HTTPS:8443'', test_protocol blocked 8443 ''tcp'' ''TLS_HELLO''
         (make_https_clienthello (replicate 32 0)))]"

section \<open>The DNS responders\<close>

lemma unpack_pack_H:
  "n \<le> 65535 \<Longrightarrow> pack_H n = Inr p \<Longrightarrow> unpack_H p = n \<and> length p = 2"
  by (auto simp add: pack_H_def unat_of_nat)

lemma wrap_tcp_length_prefixD:
  assumes "wrap_tcp_length_prefix P = Inr w"
  obtains p where "w = p @ P" and "unpack_H p = length P" and "length p = 2"
proof -
  from assms obtain p where p: "pack_H (length P) = Inr p" and w: "w = p @ P"
    by (auto simp add: wrap_tcp_length_prefix_def split: sum.splits)
  from p have "length P \<le> 65535"
    by (auto simp add: pack_H_def split: if_splits)
  from unpack_pack_H [OF this p] w that show thesis
    by simp
qed

lemma short_response:
  "length query < 12 \<Longrightarrow>
   build_dns_response query =
     take 2 query @ [0x81, 0x80, 0x00, 0x01, 0x00, 0x01, 0x00, 0x00, 0x00, 0x00] @ answer"
  by (simp add: build_dns_response_def)

lemma handle_dns_tcp_whole:
  assumes "wrap_tcp_length_prefix query = Inr w"
  shows "handle_dns_tcp (Inr (w @ extra) # rest) (Inr ()) =
     (case wrap_tcp_length_prefix (build_dns_response query) of
        Inl e \<Rightarrow> Caught e | Inr framed \<Rightarrow> Sent framed)"
proof -
  from assms obtain p where "w = p @ query" "unpack_H p = length query" "length p = 2"
    by (rule wrap_tcp_length_prefixD)
  then show ?thesis
    by (simp add: handle_dns_tcp_def read_tcp_length_prefixed_def recv_def Let_def
        split: sum.splits)
qed

lemma long_response:
  "12 \<le> length query \<Longrightarrow>
   build_dns_response query =
     take 2 query @ [0x81, 0x80, 0x00, 0x01, 0x00, 0x01, 0x00, 0x00, 0x00, 0x00]
       @ drop 12 query @ answer"
  by (simp add: build_dns_response_def)

lemma long_response_length:
  "12 \<le> length query \<Longrightarrow> length (build_dns_response query) = length query + 16"
  by (simp add: build_dns_response_def answer_def)

lemma long_response_parts:
  assumes "12 \<le> length query"
  shows "take 2 (build_dns_response query) = take 2 query"
    and "take (length query - 12) (drop 12 (build_dns_response query)) = drop 12 query"
    and "drop (length (build_dns_response query) - 16) (build_dns_response query) = answer"
  using assms by (simp_all add: build_dns_response_def answer_def)

text \<open>
  C1, as the specification states it, fails: it does not say how the bytes arrive. The
  query of \<open>test_real_dns_query\<close> behind its prefix \<open>00 1C\<close> is sent whole, but the
  first segment ends after the byte \<open>AA\<close>. The single \<open>recv(28)\<close> returns that one
  byte, and the reply is \<open>00 1B\<close> and a 27-byte response that starts with \<open>AA 81\<close>,
  not with \<open>AA BB\<close>, and has no question section.
\<close>

theorem tcp_dns_split_counterexample:
  "[0x00, 0x1c, 0xaa] @ drop 3 real_tcp_dns_query = real_tcp_dns_query
   \<and> handle_dns_tcp [Inr [0x00, 0x1c, 0xaa], Inr (drop 3 real_tcp_dns_query)] (Inr ()) =
       Sent ([0x00, 0x1b] @
             [0xaa, 0x81, 0x80, 0x00, 0x01, 0x00, 0x01, 0x00, 0x00, 0x00, 0x00,
              0xc0, 0x0c, 0x00, 0x01, 0x00, 0x01, 0x00, 0x00, 0x01, 0x2c, 0x00, 0x04,
              0xac, 0xd9, 0x0e, 0xce])
   \<and> take 2 [0xaa, 0x81, 0x80, 0x00, 0x01, 0x00, 0x01, 0x00, 0x00, 0x00, 0x00,
              0xc0, 0x0c, 0x00, 0x01, 0x00, 0x01, 0x00, 0x00, 0x01, 0x2c, 0x00, 0x04,
              0xac, 0xd9, 0x0e, 0xce :: byte] \<noteq> [0xaa, 0xbb]"
  by (simp add: handle_dns_tcp_def read_tcp_length_prefixed_def recv_def
      wrap_tcp_length_prefix_def pack_H_def build_dns_response_def answer_def
      real_tcp_dns_query_def real_dns_query_def)

text \<open>
  C1, amended. For every query of 12 to 65519 bytes that reaches the TCP DNS responder
  behind its 2-byte big-endian length prefix in one segment (alone or with more bytes
  behind it), and whose reply \<open>sendall\<close> accepts, the reply is the 2-byte big-endian
  length of the response followed by the response, and the response is the query's
  first two bytes (the transaction id), the fixed header \<open>8180 0001 0001 0000 0000\<close>,
  the query's bytes from offset 12 unchanged, and the answer record
  \<open>C00C 0001 0001 0000012C 0004 ACD90ECE\<close>: its first two bytes are the query's, its
  last 16 bytes are the answer record, and the bytes between the header and the answer
  are \<open>query[12:]\<close>. For the query \<open>AABB 0100 0001 0000 0000 0000 06 google 03 com 00
  0001 0001\<close> behind \<open>00 1C\<close> the reply is \<open>00 2C\<close>, then \<open>AABB\<close>, the header, the
  16 bytes of the question and the answer record.
\<close>

theorem tcp_dns_reply_one_segment:
  assumes "12 \<le> length query" and "length query \<le> 65519"
  shows "handle_dns_tcp
           (Inr ([word_of_nat (length query div 256), word_of_nat (length query mod 256)]
                 @ query @ extra) # rest) (Inr ()) =
         Sent ([word_of_nat ((length query + 16) div 256),
                word_of_nat ((length query + 16) mod 256)] @ build_dns_response query)
     \<and> build_dns_response query =
         take 2 query @ [0x81, 0x80, 0x00, 0x01, 0x00, 0x01, 0x00, 0x00, 0x00, 0x00]
           @ drop 12 query @ answer
     \<and> length (build_dns_response query) = length query + 16
     \<and> take 2 (build_dns_response query) = take 2 query
     \<and> take (length query - 12) (drop 12 (build_dns_response query)) = drop 12 query
     \<and> drop (length (build_dns_response query) - 16) (build_dns_response query) =
         [0xc0, 0x0c, 0x00, 0x01, 0x00, 0x01, 0x00, 0x00, 0x01, 0x2c, 0x00, 0x04,
          0xac, 0xd9, 0x0e, 0xce]"
proof -
  have w: "wrap_tcp_length_prefix query =
      Inr ([word_of_nat (length query div 256), word_of_nat (length query mod 256)] @ query)"
    using assms by (simp add: wrap_tcp_length_prefix_def pack_H_def)
  have l: "length (build_dns_response query) = length query + 16"
    using assms(1) by (rule long_response_length)
  have p: "wrap_tcp_length_prefix (build_dns_response query) =
      Inr ([word_of_nat ((length query + 16) div 256),
            word_of_nat ((length query + 16) mod 256)] @ build_dns_response query)"
    using assms(2) l by (simp add: wrap_tcp_length_prefix_def pack_H_def)
  have h: "handle_dns_tcp
           (Inr ([word_of_nat (length query div 256), word_of_nat (length query mod 256)]
                 @ query @ extra) # rest) (Inr ()) =
         Sent ([word_of_nat ((length query + 16) div 256),
                word_of_nat ((length query + 16) mod 256)] @ build_dns_response query)"
    using handle_dns_tcp_whole [OF w, of extra rest] p by simp
  show ?thesis
    using h l long_response [OF assms(1)] long_response_parts [OF assms(1)]
    by (simp add: answer_def)
qed

theorem tcp_dns_reply_one_segment_witness:
  "12 \<le> length real_dns_query \<and> length real_dns_query \<le> 65519
   \<and> real_tcp_dns_query =
       [0x00, 0x1c, 0xaa, 0xbb, 0x01, 0x00, 0x00, 0x01, 0x00, 0x00, 0x00, 0x00, 0x00, 0x00,
        0x06, 0x67, 0x6f, 0x6f, 0x67, 0x6c, 0x65, 0x03, 0x63, 0x6f, 0x6d, 0x00,
        0x00, 0x01, 0x00, 0x01]
   \<and> handle_dns_tcp [Inr real_tcp_dns_query] (Inr ()) =
       Sent ([0x00, 0x2c] @ [0xaa, 0xbb]
             @ [0x81, 0x80, 0x00, 0x01, 0x00, 0x01, 0x00, 0x00, 0x00, 0x00]
             @ [0x06, 0x67, 0x6f, 0x6f, 0x67, 0x6c, 0x65, 0x03, 0x63, 0x6f, 0x6d, 0x00,
                0x00, 0x01, 0x00, 0x01]
             @ [0xc0, 0x0c, 0x00, 0x01, 0x00, 0x01, 0x00, 0x00, 0x01, 0x2c, 0x00, 0x04,
                0xac, 0xd9, 0x0e, 0xce])
   \<and> take 2 (build_dns_response real_dns_query) = [0xaa, 0xbb]
   \<and> drop (length (build_dns_response real_dns_query) - 16)
        (build_dns_response real_dns_query) =
       [0xc0, 0x0c, 0x00, 0x01, 0x00, 0x01, 0x00, 0x00, 0x01, 0x2c, 0x00, 0x04,
        0xac, 0xd9, 0x0e, 0xce]"
  using tcp_dns_reply_one_segment [of real_dns_query "[]" "[]"]
  by (simp add: real_tcp_dns_query_def real_dns_query_def answer_def)

text \<open>
  C3, as the specification states it, fails: a 3-byte datagram gets a 28-byte response
  from the UDP responder, and the same 3 bytes behind the prefix \<open>00 03\<close> get that
  response, framed, from the TCP responder.
\<close>

theorem short_query_counterexample:
  "length [0xaa, 0xbb, 0x01 :: byte] < 12
   \<and> dns_udp_turn (Inr [0xaa, 0xbb, 0x01]) (Inr ()) =
       Sent [0xaa, 0xbb, 0x81, 0x80, 0x00, 0x01, 0x00, 0x01, 0x00, 0x00, 0x00, 0x00,
             0xc0, 0x0c, 0x00, 0x01, 0x00, 0x01, 0x00, 0x00, 0x01, 0x2c, 0x00, 0x04,
             0xac, 0xd9, 0x0e, 0xce]
   \<and> handle_dns_tcp [Inr [0x00, 0x03, 0xaa, 0xbb, 0x01]] (Inr ()) =
       Sent [0x00, 0x1c,
             0xaa, 0xbb, 0x81, 0x80, 0x00, 0x01, 0x00, 0x01, 0x00, 0x00, 0x00, 0x00,
             0xc0, 0x0c, 0x00, 0x01, 0x00, 0x01, 0x00, 0x00, 0x01, 0x2c, 0x00, 0x04,
             0xac, 0xd9, 0x0e, 0xce]"
  by (simp add: dns_udp_turn_def handle_dns_tcp_def read_tcp_length_prefixed_def recv_def
      wrap_tcp_length_prefix_def pack_H_def build_dns_response_def answer_def)

text \<open>
  C3, amended. The responders have no length check and no \<open>MalformedPacketError\<close>:
  for every query shorter than 12 bytes the synthesis succeeds. The response is the
  first two bytes of the query (fewer if it has fewer), the fixed header
  \<open>8180 0001 0001 0000 0000\<close>, an empty question section and the fixed answer record.
  The UDP responder sends it as it is, and the TCP responder, given the query behind its
  length prefix in one segment, sends it behind its own length prefix.
\<close>

theorem short_query_gets_response:
  assumes "length query < 12"
  shows "build_dns_response query =
           take 2 query @ [0x81, 0x80, 0x00, 0x01, 0x00, 0x01, 0x00, 0x00, 0x00, 0x00] @ answer
       \<and> dns_udp_turn (Inr query) (Inr ()) = Sent (build_dns_response query)
       \<and> (\<exists>w p. wrap_tcp_length_prefix query = Inr w
             \<and> pack_H (length (build_dns_response query)) = Inr p
             \<and> handle_dns_tcp (Inr w # rest) (Inr ()) = Sent (p @ build_dns_response query))"
proof -
  have r: "build_dns_response query =
           take 2 query @ [0x81, 0x80, 0x00, 0x01, 0x00, 0x01, 0x00, 0x00, 0x00, 0x00] @ answer"
    using assms by (rule short_response)
  have u: "dns_udp_turn (Inr query) (Inr ()) = Sent (build_dns_response query)"
    using assms by (simp add: dns_udp_turn_def Let_def)
  obtain w where w: "wrap_tcp_length_prefix query = Inr w"
    using assms by (simp add: wrap_tcp_length_prefix_def pack_H_def)
  have "length (build_dns_response query) \<le> 65535"
    by (simp add: r answer_def)
  then obtain p where p: "pack_H (length (build_dns_response query)) = Inr p"
    by (simp add: pack_H_def)
  have "handle_dns_tcp (Inr w # rest) (Inr ()) = Sent (p @ build_dns_response query)"
    using handle_dns_tcp_whole [OF w, of "[]" rest] p
    by (simp add: wrap_tcp_length_prefix_def)
  with r u w p show ?thesis by blast
qed

theorem short_query_gets_response_witness:
  "length [0xaa, 0xbb, 0x01 :: byte] < 12
   \<and> build_dns_response [0xaa, 0xbb, 0x01] =
       [0xaa, 0xbb, 0x81, 0x80, 0x00, 0x01, 0x00, 0x01, 0x00, 0x00, 0x00, 0x00] @ answer
   \<and> dns_udp_turn (Inr [0xaa, 0xbb, 0x01]) (Inr ()) =
       Sent (build_dns_response [0xaa, 0xbb, 0x01])"
  using short_query_gets_response [of "[0xaa, 0xbb, 0x01]" "[]"] by simp

section \<open>TCP framing\<close>

lemma read_whole:
  assumes "wrap_tcp_length_prefix P = Inr w"
  shows "fst (read_tcp_length_prefixed (Inr (w @ extra) # rest)) = Inr P"
proof -
  from assms obtain p where "w = p @ P" "unpack_H p = length P" "length p = 2"
    by (rule wrap_tcp_length_prefixD)
  then show ?thesis
    by (simp add: read_tcp_length_prefixed_def recv_def Let_def)
qed

lemma read_short:
  assumes w: "wrap_tcp_length_prefix P = Inr w" and k: "0 < k" "k < length P"
  shows "fst (read_tcp_length_prefixed (Inr (take (2 + k) w) # rest)) = Inr (take k P)"
proof -
  from w obtain p where "w = p @ P" "unpack_H p = length P" "length p = 2"
    by (rule wrap_tcp_length_prefixD)
  then show ?thesis
    using k by (simp add: read_tcp_length_prefixed_def recv_def Let_def)
qed

lemma read_bad_prefix:
  "length seg < 2 \<Longrightarrow>
   fst (read_tcp_length_prefixed (Inr seg # rest)) = Inl InvalidLengthPrefix"
  by (simp add: read_tcp_length_prefixed_def recv_def)

text \<open>
  C4, as the specification states it, fails: the framed payload \<open>01 02 03\<close> arrives
  in two segments, \<open>00 03 01\<close> and \<open>02 03\<close>. The single \<open>recv(3)\<close> returns the one
  byte at hand, and the read yields \<open>01\<close>: neither the payload nor an error.
\<close>

theorem tcp_framing_counterexample:
  "wrap_tcp_length_prefix [0x01, 0x02, 0x03] = Inr ([0x00, 0x03, 0x01] @ [0x02, 0x03])
   \<and> fst (read_tcp_length_prefixed [Inr [0x00, 0x03, 0x01], Inr [0x02, 0x03]]) = Inr [0x01]
   \<and> [0x01] \<noteq> [0x01, 0x02, 0x03 :: byte]"
  by (simp add: read_tcp_length_prefixed_def recv_def wrap_tcp_length_prefix_def pack_H_def)

text \<open>
  C4, amended. For every payload \<open>P\<close> of at most 65535 bytes the prefix can be
  written, and when the framed message is at hand in one segment (alone or with more
  bytes behind it) the read returns exactly \<open>P\<close>. The body is read with a single
  \<open>recv\<close> and there is no \<open>FramingError\<close>: when only the first \<open>k\<close> bytes of the
  body are at hand, \<open>0 < k < len(P)\<close>, the read returns these \<open>k\<close> bytes as the
  query. Only a prefix read of fewer than 2 bytes is rejected.
\<close>

theorem tcp_framing_single_recv:
  assumes "length P \<le> 65535"
  shows "\<exists>w. wrap_tcp_length_prefix P = Inr w
           \<and> fst (read_tcp_length_prefixed (Inr (w @ extra) # rest)) = Inr P
           \<and> (0 < k \<and> k < length P \<longrightarrow>
                fst (read_tcp_length_prefixed (Inr (take (2 + k) w) # rest)) = Inr (take k P))
           \<and> (length seg < 2 \<longrightarrow>
                fst (read_tcp_length_prefixed (Inr seg # rest)) = Inl InvalidLengthPrefix)"
proof -
  obtain w where w: "wrap_tcp_length_prefix P = Inr w"
    using assms by (simp add: wrap_tcp_length_prefix_def pack_H_def)
  show ?thesis
    using w read_whole [OF w] read_short [OF w] read_bad_prefix by blast
qed

theorem tcp_framing_single_recv_witness:
  "length [0x01, 0x02, 0x03 :: byte] \<le> 65535
   \<and> wrap_tcp_length_prefix [0x01, 0x02, 0x03] = Inr [0x00, 0x03, 0x01, 0x02, 0x03]
   \<and> fst (read_tcp_length_prefixed [Inr [0x00, 0x03, 0x01, 0x02, 0x03]]) = Inr [0x01, 0x02, 0x03]
   \<and> (0 < (1::nat) \<and> 1 < length [0x01, 0x02, 0x03 :: byte])
   \<and> fst (read_tcp_length_prefixed [Inr [0x00, 0x03, 0x01]]) = Inr [0x01]
   \<and> length [0x00 :: byte] < 2
   \<and> fst (read_tcp_length_prefixed [Inr [0x00]]) = Inl InvalidLengthPrefix"
  using tcp_framing_single_recv [of "[0x01, 0x02, 0x03]" "[]" "[]" 1 "[0x00]"]
  by (simp add: wrap_tcp_length_prefix_def pack_H_def)

section \<open>The echo listeners\<close>

text \<open>
  C6, as the specification states it, fails for the TCP echo of \<open>dns_test_server.py\<close>:
  the listener runs under the label \<open>TCP-ECHO:5353\<close>, receives the byte \<open>A\<close> and
  sends \<open>ECHO:A\<close>, which is not \<open>ECHO:TCP-ECHO:5353:A\<close>.
\<close>

theorem echo_label_counterexample:
  "handle_tcp_client [Inr [0x41]] (Inr ()) ''TCP-ECHO:5353'' =
     Sent [0x45, 0x43, 0x48, 0x4f, 0x3a, 0x41]
   \<and> [0x45, 0x43, 0x48, 0x4f, 0x3a, 0x41] \<noteq>
       encode (''ECHO:'' @ ''TCP-ECHO:5353'' @ '':'') @ [0x41]"
  by (simp add: handle_tcp_client_def recv_def encode_def)

text \<open>
  C6, amended. In \<open>multiport_analyzer.py\<close>, for every non-empty request \<open>data\<close> that
  a listener with label \<open>L\<close> receives (TCP: the result of \<open>recv(4096)\<close>; UDP: the
  datagram cut to 4096 bytes), the response handed to a successful send is the ASCII
  prefix \<open>ECHO:\<close>, \<open>L\<close>, \<open>:\<close> and then the request unchanged. The TCP echo of
  \<open>dns_test_server.py\<close> answers every request, empty or not, with \<open>ECHO:\<close> and the
  request, without a label.
\<close>

theorem echo_response:
  "(fst (recv 4096 c) = Inr data \<and> data \<noteq> [] \<longrightarrow>
      fst (handle_tcp c (Inr ()) now1 now2 addr the_port L connection_log) =
        Some (encode ''ECHO:'' @ encode L @ encode '':'' @ data))
   \<and> (take 4096 dgram \<noteq> [] \<longrightarrow>
      fst (udp_turn (Inr (dgram, addr)) (Inr ()) now1 now2 the_port L connection_log) =
        Some (encode ''ECHO:'' @ encode L @ encode '':'' @ take 4096 dgram))
   \<and> (fst (recv 4096 c) = Inr data \<longrightarrow>
      handle_tcp_client c (Inr ()) test_name = Sent (encode ''ECHO:'' @ data))"
  by (simp add: handle_tcp_def udp_turn_def handle_tcp_client_def Let_def encode_def)

theorem echo_response_witness:
  "(fst (recv 4096 [Inr [0x41, 0x42]]) = Inr [0x41, 0x42] \<and> [0x41, 0x42 :: byte] \<noteq> [])
   \<and> fst (handle_tcp [Inr [0x41, 0x42]] (Inr ()) ''t1'' ''t2'' ''10.0.0.1'' 22 ''SSH'' []) =
       Some (encode ''ECHO:SSH:'' @ [0x41, 0x42])
   \<and> take 4096 [0x41, 0x42 :: byte] \<noteq> []
   \<and> fst (udp_turn (Inr ([0x41, 0x42], ''10.0.0.1'')) (Inr ()) ''t1'' ''t2'' 53 ''DNS'' []) =
       Some (encode ''ECHO:DNS:'' @ [0x41, 0x42])
   \<and> handle_tcp_client [Inr [0x41, 0x42]] (Inr ()) ''TCP-ECHO:5353'' =
       Sent (encode ''ECHO:'' @ [0x41, 0x42])"
  using
    echo_response [where c = "[Inr [0x41, 0x42]]" and data = "[0x41, 0x42]"
      and ?now1.0 = "''t1''" and ?now2.0 = "''t2''" and addr = "''10.0.0.1''"
      and the_port = 22 and L = "''SSH''" and connection_log = "[]"
      and dgram = "[0x41, 0x42]" and test_name = "''TCP-ECHO:5353''"]
    echo_response [where c = "[Inr [0x41, 0x42]]" and data = "[0x41, 0x42]"
      and ?now1.0 = "''t1''" and ?now2.0 = "''t2''" and addr = "''10.0.0.1''"
      and the_port = 53 and L = "''DNS''" and connection_log = "[]"
      and dgram = "[0x41, 0x42]" and test_name = "''TCP-ECHO:5353''"]
  by (simp add: recv_def encode_def)

section \<open>The probe client\<close>

text \<open>
  The result of \<open>test_protocol\<close>, by the first call that does not return normally.
\<close>

lemma test_protocol_connect_fails:
  "the_proto = ''tcp'' \<Longrightarrow> connecting n = Inl (cls, msg) \<Longrightarrow>
   test_protocol n the_port the_proto packet_type data =
     \<lparr>port = the_port, proto = the_proto, type' = packet_type, sent_bytes = length data,
      status = (case cls of ConnectionRefusedError \<Rightarrow> ''REFUSED''
                | SocketTimeout \<Rightarrow> ''TIMEOUT''
                | StructError \<Rightarrow> ''ERROR:'' @ take 30 msg
                | OtherException \<Rightarrow> ''ERROR:'' @ take 30 msg),
      recv_bytes = 0, time_ms = 0\<rparr>"
  by (cases cls) (simp_all add: test_protocol_def tcp_branch_def Let_def)

lemma test_protocol_send_fails:
  "connected n the_proto \<Longrightarrow> sending n = Inl (cls, msg) \<Longrightarrow>
   test_protocol n the_port the_proto packet_type data =
     \<lparr>port = the_port, proto = the_proto, type' = packet_type, sent_bytes = length data,
      status = (case cls of ConnectionRefusedError \<Rightarrow> ''REFUSED''
                | SocketTimeout \<Rightarrow> ''TIMEOUT''
                | StructError \<Rightarrow> ''ERROR:'' @ take 30 msg
                | OtherException \<Rightarrow> ''ERROR:'' @ take 30 msg),
      recv_bytes = 0, time_ms = 0\<rparr>"
  by (cases cls)
    (auto simp add: test_protocol_def tcp_branch_def udp_branch_def connected_def Let_def)

lemma test_protocol_recv_fails:
  "sent n the_proto \<Longrightarrow> receiving n = Inl (cls, msg) \<Longrightarrow>
   test_protocol n the_port the_proto packet_type data =
     \<lparr>port = the_port, proto = the_proto, type' = packet_type, sent_bytes = length data,
      status = (case cls of ConnectionRefusedError \<Rightarrow> ''REFUSED''
                | SocketTimeout \<Rightarrow> ''NO_RESPONSE''
                | StructError \<Rightarrow> ''ERROR:'' @ take 30 msg
                | OtherException \<Rightarrow> ''ERROR:'' @ take 30 msg),
      recv_bytes = 0,
      time_ms = (case cls of SocketTimeout \<Rightarrow> elapsed_ms n | _ \<Rightarrow> 0)\<rparr>"
  by (cases cls)
    (auto simp add: test_protocol_def tcp_branch_def udp_branch_def receive_def
      connected_def sent_def Let_def)

lemma test_protocol_recv_data:
  "sent n the_proto \<Longrightarrow> receiving n = Inr delivered \<Longrightarrow>
   test_protocol n the_port the_proto packet_type data =
     \<lparr>port = the_port, proto = the_proto, type' = packet_type, sent_bytes = length data,
      status = ''SUCCESS'', recv_bytes = length (take 4096 delivered),
      time_ms = elapsed_ms n\<rparr>"
  by (auto simp add: test_protocol_def tcp_branch_def udp_branch_def receive_def
      connected_def sent_def Let_def)

lemma probe_cases:
  obtains (connect) cls msg where "the_proto = ''tcp''" "connecting n = Inl (cls, msg)"
  | (send) cls msg where "connected n the_proto" "sending n = Inl (cls, msg)"
  | (recv) cls msg where "sent n the_proto" "receiving n = Inl (cls, msg)"
  | (data) delivered where "sent n the_proto" "receiving n = Inr delivered"
proof (cases "connected n the_proto")
  case False
  then obtain cls msg where "the_proto = ''tcp''" "connecting n = Inl (cls, msg)"
    by (cases "connecting n") (auto simp add: connected_def)
  then show thesis by (rule connect)
next
  case c: True
  show thesis
  proof (cases "sending n")
    case (Inl e)
    then show thesis using c send [of "fst e" "snd e"] by simp
  next
    case (Inr u)
    then have s: "sent n the_proto" using c by (simp add: sent_def)
    show thesis
    proof (cases "receiving n")
      case (Inl e)
      then show thesis using s recv [of "fst e" "snd e"] by simp
    next
      case (Inr d)
      then show thesis using s data by simp
    qed
  qed
qed

text \<open>
  C2. The status of every probe follows from the first call that fails. When
  \<open>connect\<close> (TCP) or the send raises, the status is \<open>REFUSED\<close> for a refused
  connection, \<open>TIMEOUT\<close> for a timeout, and \<open>ERROR:\<close> with the first 30 characters of
  the message for any other exception. When the payload is sent and the receive raises,
  the status is \<open>REFUSED\<close> for a refusal, \<open>NO_RESPONSE\<close> for a timeout, and the
  truncated \<open>ERROR:\<close> for any other exception. When the receive returns, the status is
  \<open>SUCCESS\<close>, whatever the bytes are.
\<close>

theorem probe_status_rules:
  "(the_proto = ''tcp'' \<and> connecting n = Inl (cls, msg) \<or>
    connected n the_proto \<and> sending n = Inl (cls, msg) \<longrightarrow>
      status (test_protocol n the_port the_proto packet_type data) =
        (case cls of ConnectionRefusedError \<Rightarrow> ''REFUSED''
                   | SocketTimeout \<Rightarrow> ''TIMEOUT''
                   | StructError \<Rightarrow> ''ERROR:'' @ take 30 msg
                   | OtherException \<Rightarrow> ''ERROR:'' @ take 30 msg))
   \<and> (sent n the_proto \<and> receiving n = Inl (cls, msg) \<longrightarrow>
      status (test_protocol n the_port the_proto packet_type data) =
        (case cls of ConnectionRefusedError \<Rightarrow> ''REFUSED''
                   | SocketTimeout \<Rightarrow> ''NO_RESPONSE''
                   | StructError \<Rightarrow> ''ERROR:'' @ take 30 msg
                   | OtherException \<Rightarrow> ''ERROR:'' @ take 30 msg))
   \<and> (sent n the_proto \<and> receiving n = Inr delivered \<longrightarrow>
      status (test_protocol n the_port the_proto packet_type data) = ''SUCCESS'')"
  by (auto simp add: test_protocol_connect_fails test_protocol_send_fails
      test_protocol_recv_fails test_protocol_recv_data)

theorem probe_status_rules_witness:
  "connecting refusing = Inl (ConnectionRefusedError, ''[Errno 111] Connection refused'')
   \<and> status (test_protocol refusing 53 ''tcp'' ''RANDOM'' [0x00]) = ''REFUSED''
   \<and> connecting blackhole = Inl (SocketTimeout, ''timed out'')
   \<and> status (test_protocol blackhole 53 ''tcp'' ''RANDOM'' [0x00]) = ''TIMEOUT''
   \<and> connecting unreachable =
       Inl (OtherException, ''[Errno 113] No route to host (EHOSTUNREACH)'')
   \<and> status (test_protocol unreachable 53 ''tcp'' ''RANDOM'' [0x00]) =
       ''ERROR:[Errno 113] No route to host (''
   \<and> sent silent ''udp'' \<and> receiving silent = Inl (SocketTimeout, ''timed out'')
   \<and> status (test_protocol silent 53 ''udp'' ''RANDOM'' [0x00]) = ''NO_RESPONSE''
   \<and> sent echoing ''tcp'' \<and> receiving echoing = Inr [0x45, 0x43, 0x48, 0x4f]
   \<and> status (test_protocol echoing 53 ''tcp'' ''RANDOM'' [0x00]) = ''SUCCESS''"
  using
    probe_status_rules [where the_proto = "''tcp''" and n = refusing
      and cls = ConnectionRefusedError and msg = "''[Errno 111] Connection refused''"
      and the_port = 53 and packet_type = "''RANDOM''" and data = "[0x00]"]
    probe_status_rules [where the_proto = "''tcp''" and n = blackhole
      and cls = SocketTimeout and msg = "''timed out''"
      and the_port = 53 and packet_type = "''RANDOM''" and data = "[0x00]"]
    probe_status_rules [where the_proto = "''tcp''" and n = unreachable
      and cls = OtherException and msg = "''[Errno 113] No route to host (EHOSTUNREACH)''"
      and the_port = 53 and packet_type = "''RANDOM''" and data = "[0x00]"]
    probe_status_rules [where the_proto = "''udp''" and n = silent
      and cls = SocketTimeout and msg = "''timed out''"
      and the_port = 53 and packet_type = "''RANDOM''" and data = "[0x00]"]
    probe_status_rules [where the_proto = "''tcp''" and n = echoing
      and delivered = "[0x45, 0x43, 0x48, 0x4f]"
      and the_port = 53 and packet_type = "''RANDOM''" and data = "[0x00]"]
  by (simp add: refusing_def blackhole_def unreachable_def silent_def echoing_def
      sent_def connected_def)

text \<open>
  C9, as the specification states it, fails: it does not say how the peer closes. A
  peer that accepts the connection and closes it with the payload unread resets it;
  \<open>recv\<close> then raises \<open>ConnectionResetError\<close>, which the inner \<open>try\<close> does not
  catch, and the probe is classified \<open>ERROR:\<close> with the truncated message, not
  \<open>SUCCESS\<close>.
\<close>

theorem reset_close_counterexample:
  "connecting resetting = Inr () \<and> sending resetting = Inr ()
   \<and> receiving resetting = Inl (OtherException, ''[Errno 104] Connection reset by peer'')
   \<and> status (test_protocol resetting 22 ''tcp'' ''SSH_BANNER'' make_ssh_banner) =
       ''ERROR:[Errno 104] Connection reset b''
   \<and> status (test_protocol resetting 22 ''tcp'' ''SSH_BANNER'' make_ssh_banner) \<noteq> ''SUCCESS''
   \<and> recv_bytes (test_protocol resetting 22 ''tcp'' ''SSH_BANNER'' make_ssh_banner) = 0"
  by (simp add: test_protocol_def tcp_branch_def receive_def resetting_def)

text \<open>
  C9, amended. A TCP probe whose connection is made and whose payload is sent, and
  whose peer then closes in the orderly way without sending a byte, so that \<open>recv\<close>
  returns \<open>b''\<close>, has status \<open>SUCCESS\<close> and \<open>recv_bytes = 0\<close>: a zero-length receive
  counts as a response, not as \<open>NO_RESPONSE\<close>.
\<close>

theorem closed_without_data_is_success:
  assumes "the_proto = ''tcp''" "connecting n = Inr ()" "sending n = Inr ()"
    and r: "receiving n = Inr []"
  shows "status (test_protocol n the_port the_proto packet_type data) = ''SUCCESS''
   \<and> recv_bytes (test_protocol n the_port the_proto packet_type data) = 0"
proof -
  from assms have "sent n the_proto"
    by (simp add: sent_def connected_def)
  from test_protocol_recv_data [OF this r] show ?thesis
    by simp
qed

theorem closed_without_data_is_success_witness:
  "connecting closing_peer = Inr () \<and> sending closing_peer = Inr ()
   \<and> receiving closing_peer = Inr []
   \<and> status (test_protocol closing_peer 22 ''tcp'' ''SSH_BANNER'' make_ssh_banner) = ''SUCCESS''
   \<and> recv_bytes (test_protocol closing_peer 22 ''tcp'' ''SSH_BANNER'' make_ssh_banner) = 0"
  using closed_without_data_is_success
    [of "''tcp''" closing_peer 22 "''SSH_BANNER''" make_ssh_banner]
  by (simp add: closing_peer_def)

text \<open>
  C10. Whenever the status of a probe is \<open>REFUSED\<close>, \<open>TIMEOUT\<close> or starts with
  \<open>ERROR:\<close>, its \<open>time_ms\<close> is 0, whatever time has passed; when the status is
  \<open>SUCCESS\<close> or \<open>NO_RESPONSE\<close>, \<open>time_ms\<close> is the elapsed time measured at line 53.
\<close>

theorem failed_probe_time_is_zero:
  "(status (test_protocol n the_port the_proto packet_type data) = ''REFUSED''
    \<or> status (test_protocol n the_port the_proto packet_type data) = ''TIMEOUT''
    \<or> take 6 (status (test_protocol n the_port the_proto packet_type data)) = ''ERROR:''
    \<longrightarrow> time_ms (test_protocol n the_port the_proto packet_type data) = 0)
   \<and> (status (test_protocol n the_port the_proto packet_type data) = ''SUCCESS''
    \<or> status (test_protocol n the_port the_proto packet_type data) = ''NO_RESPONSE''
    \<longrightarrow> time_ms (test_protocol n the_port the_proto packet_type data) = elapsed_ms n)"
proof (cases rule: probe_cases [of the_proto n])
  case (connect cls msg)
  then show ?thesis by (cases cls) (simp_all add: test_protocol_connect_fails)
next
  case (send cls msg)
  then show ?thesis by (cases cls) (simp_all add: test_protocol_send_fails)
next
  case (recv cls msg)
  then show ?thesis by (cases cls) (simp_all add: test_protocol_recv_fails)
next
  case (data delivered)
  then show ?thesis by (simp add: test_protocol_recv_data)
qed

theorem failed_probe_time_is_zero_witness:
  "status (test_protocol refusing 53 ''tcp'' ''RANDOM'' [0x00]) = ''REFUSED''
   \<and> elapsed_ms refusing = 3
   \<and> time_ms (test_protocol refusing 53 ''tcp'' ''RANDOM'' [0x00]) = 0
   \<and> status (test_protocol blackhole 53 ''tcp'' ''RANDOM'' [0x00]) = ''TIMEOUT''
   \<and> elapsed_ms blackhole = 5003
   \<and> time_ms (test_protocol blackhole 53 ''tcp'' ''RANDOM'' [0x00]) = 0
   \<and> take 6 (status (test_protocol unreachable 53 ''tcp'' ''RANDOM'' [0x00])) = ''ERROR:''
   \<and> time_ms (test_protocol unreachable 53 ''tcp'' ''RANDOM'' [0x00]) = 0
   \<and> status (test_protocol silent 53 ''udp'' ''RANDOM'' [0x00]) = ''NO_RESPONSE''
   \<and> time_ms (test_protocol silent 53 ''udp'' ''RANDOM'' [0x00]) = 5004
   \<and> status (test_protocol echoing 53 ''tcp'' ''RANDOM'' [0x00]) = ''SUCCESS''
   \<and> time_ms (test_protocol echoing 53 ''tcp'' ''RANDOM'' [0x00]) = 40"
  using failed_probe_time_is_zero [of refusing 53 "''tcp''" "''RANDOM''" "[0x00]"]
    failed_probe_time_is_zero [of blackhole 53 "''tcp''" "''RANDOM''" "[0x00]"]
    failed_probe_time_is_zero [of unreachable 53 "''tcp''" "''RANDOM''" "[0x00]"]
    failed_probe_time_is_zero [of silent 53 "''udp''" "''RANDOM''" "[0x00]"]
    failed_probe_time_is_zero [of echoing 53 "''tcp''" "''RANDOM''" "[0x00]"]
  by (simp add: test_protocol_def tcp_branch_def udp_branch_def receive_def
      refusing_def blackhole_def unreachable_def silent_def echoing_def)

section \<open>The analysis of the report\<close>

lemma analysis_lengths:
  "length (dns_analysis tests) \<le> 1" "length (ssh_analysis tests) \<le> 1"
  "length (https_analysis tests) \<le> 1"
  by (simp_all add: dns_analysis_def ssh_analysis_def https_analysis_def Let_def)

lemma analysis_empty:
  "dns_analysis tests = [] \<longleftrightarrow>
     status (snd (tests ! 0)) \<noteq> ''SUCCESS'' \<and> status (snd (tests ! 1)) \<noteq> ''SUCCESS''"
  "ssh_analysis tests = [] \<longleftrightarrow> status (snd (tests ! 4)) \<noteq> ''SUCCESS''"
  "https_analysis tests = [] \<longleftrightarrow> status (snd (tests ! 7)) \<noteq> ''SUCCESS''"
  by (auto simp add: dns_analysis_def ssh_analysis_def https_analysis_def Let_def)

lemma no_inconclusive: "inconclusive \<notin> set (analysis tests)"
  by (simp add: analysis_def dns_analysis_def ssh_analysis_def https_analysis_def Let_def
      inconclusive_def check_mark_def)

lemma blocking_analysis_lines:
  "length (blocking_analysis results) =
     (if tcp_echo results \<and> \<not> real_dns_tcp results
         \<or> real_dns_tcp results \<and> \<not> fake_dns results
         \<or> real_dns_tcp results \<and> \<not> encrypted results
         \<or> udp_dns results \<and> \<not> real_dns_tcp results
      then 2 else 1)"
  "inconclusive \<notin> set (blocking_analysis results)"
  by (auto simp add: blocking_analysis_def inconclusive_def arrow_def)

lemma run_tests_length:
  "run_tests nets the_query urandom64 random = Inr tests \<Longrightarrow> length tests = 10"
  by (auto simp add: run_tests_def Let_def split: sum.splits)

text \<open>
  C7, as the specification states it, fails: on a path where every TCP probe times out
  and no UDP probe is answered, no rule of any family matches and the analysis prints
  nothing at all, so no family gets a default diagnosis.
\<close>

theorem no_default_diagnosis_counterexample:
  "(case run_tests (\<lambda>i. blocked) real_dns_query (\<lambda>i. replicate 64 0) (replicate 32 0) of
      Inl e \<Rightarrow> None
    | Inr tests \<Rightarrow>
        Some (map (status \<circ> snd) tests,
              dns_analysis tests, ssh_analysis tests, https_analysis tests))
   = Some ([''TIMEOUT'', ''NO_RESPONSE'', ''TIMEOUT'', ''NO_RESPONSE'', ''TIMEOUT'',
            ''TIMEOUT'', ''TIMEOUT'', ''TIMEOUT'', ''TIMEOUT'', ''TIMEOUT''], [], [], [])"
  by (simp add: run_tests_def wrap_tcp_length_prefix_def pack_H_def real_dns_query_def Let_def
      test_protocol_def tcp_branch_def udp_branch_def receive_def blocked_def
      dns_analysis_def ssh_analysis_def https_analysis_def)

text \<open>
  C7, amended. For every report of \<open>run_tests\<close> (ten results), the analysis prints at
  most one diagnosis line per family (DNS, SSH, TLS). When no rule of a family matches
  it prints nothing for that family: the DNS family is silent exactly when neither the
  TCP nor the UDP DNS probe succeeded, the SSH family when the SSH banner probe on port
  22 did not succeed, the TLS family when the ClientHello probe on port 443 did not
  succeed. The line \<open>inconclusive\<close> is never printed. The one-family analysis of
  \<open>test_dns_blocking.py\<close> prints two lines for the first rule that matches and its own
  one-line default otherwise, and never that line either.
\<close>

theorem analysis_lines_per_family:
  assumes "run_tests nets the_query urandom64 random = Inr tests"
  shows "length tests = 10
    \<and> length (dns_analysis tests) \<le> 1 \<and> length (ssh_analysis tests) \<le> 1
    \<and> length (https_analysis tests) \<le> 1
    \<and> (dns_analysis tests = [] \<longleftrightarrow>
         status (snd (tests ! 0)) \<noteq> ''SUCCESS'' \<and> status (snd (tests ! 1)) \<noteq> ''SUCCESS'')
    \<and> (ssh_analysis tests = [] \<longleftrightarrow> status (snd (tests ! 4)) \<noteq> ''SUCCESS'')
    \<and> (https_analysis tests = [] \<longleftrightarrow> status (snd (tests ! 7)) \<noteq> ''SUCCESS'')
    \<and> inconclusive \<notin> set (analysis tests)
    \<and> length (blocking_analysis results) =
         (if tcp_echo results \<and> \<not> real_dns_tcp results
             \<or> real_dns_tcp results \<and> \<not> fake_dns results
             \<or> real_dns_tcp results \<and> \<not> encrypted results
             \<or> udp_dns results \<and> \<not> real_dns_tcp results
          then 2 else 1)
    \<and> inconclusive \<notin> set (blocking_analysis results)"
  using run_tests_length [OF assms] analysis_lengths [of tests] analysis_empty [of tests]
    no_inconclusive [of tests] blocking_analysis_lines [of results]
  by simp

theorem analysis_lines_per_family_witness:
  "run_tests (\<lambda>i. if i = 1 then echoing else blocked) real_dns_query
      (\<lambda>i. replicate 64 0) (replicate 32 0) = Inr example_report
   \<and> map (status \<circ> snd) example_report =
       [''TIMEOUT'', ''SUCCESS'', ''TIMEOUT'', ''NO_RESPONSE'', ''TIMEOUT'',
        ''TIMEOUT'', ''TIMEOUT'', ''TIMEOUT'', ''TIMEOUT'', ''TIMEOUT'']
   \<and> length example_report = 10
   \<and> length (dns_analysis example_report) = 1
   \<and> ssh_analysis example_report = []
   \<and> https_analysis example_report = []
   \<and> length (blocking_analysis \<lparr>tcp_echo = True, real_dns_tcp = False, fake_dns = False,
         encrypted = False, udp_dns = True\<rparr>) = 2"
proof -
  have r: "run_tests (\<lambda>i. if i = 1 then echoing else blocked) real_dns_query
      (\<lambda>i. replicate 64 0) (replicate 32 0) = Inr example_report"
    by (simp add: run_tests_def wrap_tcp_length_prefix_def pack_H_def Let_def
        example_report_def real_tcp_dns_query_def real_dns_query_def)
  have s: "map (status \<circ> snd) example_report =
       [''TIMEOUT'', ''SUCCESS'', ''TIMEOUT'', ''NO_RESPONSE'', ''TIMEOUT'',
        ''TIMEOUT'', ''TIMEOUT'', ''TIMEOUT'', ''TIMEOUT'', ''TIMEOUT'']"
    by (simp add: example_report_def test_protocol_def tcp_branch_def udp_branch_def
        receive_def blocked_def echoing_def)
  have d: "length (dns_analysis example_report) = 1"
    by (simp add: dns_analysis_def Let_def example_report_def test_protocol_def
        tcp_branch_def udp_branch_def receive_def blocked_def echoing_def)
  have n: "status (snd (example_report ! 4)) = ''TIMEOUT''"
    "status (snd (example_report ! 7)) = ''TIMEOUT''"
    by (simp_all add: example_report_def test_protocol_def tcp_branch_def blocked_def)
  from analysis_lines_per_family [OF r,
      of "\<lparr>tcp_echo = True, real_dns_tcp = False, fake_dns = False,
          encrypted = False, udp_dns = True\<rparr>"] r s d n
  show ?thesis by simp
qed

section \<open>The TLS ClientHello\<close>

text \<open>
  C8. Every record that \<open>make_https_clienthello\<close> builds from 32 random bytes has the
  same size, 50 bytes. Its length fields do not agree with it: the record length field
  says 64 where 45 bytes follow, and the handshake length field says 60 where 41 bytes
  follow. The slice \<open>handshake[:64]\<close> cuts nothing, as the handshake is 45 bytes long.
\<close>

theorem clienthello_length_fields:
  assumes "length random = 32"
  shows "length (make_https_clienthello random) = 50
    \<and> record_length_field (make_https_clienthello random) = 64
    \<and> record_body_size (make_https_clienthello random) = 45
    \<and> handshake_length_field (make_https_clienthello random) = 60
    \<and> handshake_body_size (make_https_clienthello random) = 41"
  using assms
  by (simp add: make_https_clienthello_def handshake_def record_length_field_def
      record_body_size_def handshake_length_field_def handshake_body_size_def be_nat_def)

theorem clienthello_length_fields_witness:
  "length (replicate 32 (0 :: byte)) = 32
    \<and> length (make_https_clienthello (replicate 32 0)) = 50
    \<and> record_length_field (make_https_clienthello (replicate 32 0)) = 64
    \<and> record_body_size (make_https_clienthello (replicate 32 0)) = 45
    \<and> handshake_length_field (make_https_clienthello (replicate 32 0)) = 60
    \<and> handshake_body_size (make_https_clienthello (replicate 32 0)) = 41"
  using clienthello_length_fields [of "replicate 32 0"] by simp

section \<open>The statistics of the log\<close>

lemma dump_stats_snoc: "dump_stats (lg @ [e]) = add_entry e (dump_stats lg)"
  by (simp add: dump_stats_def)

lemma events_of_snoc:
  "events_of k (lg @ [e]) = (if key e = k then events_of k lg @ [e] else events_of k lg)"
  by (simp add: events_of_def)

lemma add_entry_other: "key e \<noteq> k \<Longrightarrow> add_entry e m k = m k"
  by (simp add: add_entry_def Let_def split: option.splits)

lemma add_entry_fresh:
  "m (key e) = None \<Longrightarrow>
   add_entry e m (key e) = Some \<lparr>count = 1, bytes = data_len e, clients = {client e}\<rparr>"
  by (simp add: add_entry_def Let_def)

lemma add_entry_known:
  "m (key e) = Some b \<Longrightarrow>
   add_entry e m (key e) =
     Some (b\<lparr>count := count b + 1, bytes := bytes b + data_len e,
             clients := insert (client e) (clients b)\<rparr>)"
  by (simp add: add_entry_def Let_def)

lemma dump_stats_closed:
  "dump_stats lg k =
     (if events_of k lg = [] then None
      else Some \<lparr>count = length (events_of k lg),
                 bytes = sum_list (map data_len (events_of k lg)),
                 clients = client ` set (events_of k lg)\<rparr>)"
proof (induction lg rule: rev_induct)
  case Nil
  show ?case by (simp add: dump_stats_def events_of_def)
next
  case (snoc e lg)
  show ?case
  proof (cases "key e = k")
    case False
    then show ?thesis
      by (simp add: dump_stats_snoc add_entry_other events_of_snoc snoc.IH)
  next
    case same: True
    show ?thesis
    proof (cases "events_of k lg = []")
      case True
      with snoc.IH same have "dump_stats lg (key e) = None"
        by simp
      then have "add_entry e (dump_stats lg) (key e) =
          Some \<lparr>count = 1, bytes = data_len e, clients = {client e}\<rparr>"
        by (rule add_entry_fresh)
      then show ?thesis
        using True same by (simp add: dump_stats_snoc events_of_snoc)
    next
      case False
      with snoc.IH same have "dump_stats lg (key e) =
          Some \<lparr>count = length (events_of k lg),
                bytes = sum_list (map data_len (events_of k lg)),
                clients = client ` set (events_of k lg)\<rparr>"
        by simp
      then have "add_entry e (dump_stats lg) (key e) =
          Some \<lparr>count = length (events_of k lg) + 1,
                bytes = sum_list (map data_len (events_of k lg)) + data_len e,
                clients = insert (client e) (client ` set (events_of k lg))\<rparr>"
        by (simp add: add_entry_known)
      then show ?thesis
        using False same by (simp add: dump_stats_snoc events_of_snoc)
    qed
  qed
qed

lemma dom_dump_stats: "dom (dump_stats lg) = key ` set lg"
  by (auto simp add: dom_def dump_stats_closed events_of_def filter_empty_conv)

lemma sum_events_of:
  "finite S \<Longrightarrow> key ` set lg \<subseteq> S \<Longrightarrow> (\<Sum>k\<in>S. length (events_of k lg)) = length lg"
proof (induction lg)
  case Nil
  show ?case by (simp add: events_of_def)
next
  case (Cons e lg)
  have "(\<Sum>k\<in>S. length (events_of k (e # lg)))
      = (\<Sum>k\<in>S. (if k = key e then 1 else 0) + length (events_of k lg))"
    by (rule sum.cong) (auto simp add: events_of_def)
  also have "\<dots> = (\<Sum>k\<in>S. if k = key e then 1 else 0) + (\<Sum>k\<in>S. length (events_of k lg))"
    by (simp add: sum.distrib)
  also have "\<dots> = 1 + length lg"
    using Cons by simp
  finally show ?case by simp
qed

lemma sum_counts: "(\<Sum>k\<in>dom (dump_stats lg). count (the (dump_stats lg k))) = length lg"
proof -
  have "(\<Sum>k\<in>dom (dump_stats lg). count (the (dump_stats lg k)))
      = (\<Sum>k\<in>key ` set lg. length (events_of k lg))"
    unfolding dom_dump_stats
    by (rule sum.cong) (auto simp add: dump_stats_closed events_of_def filter_empty_conv)
  also have "\<dots> = length lg"
    by (rule sum_events_of) simp_all
  finally show ?thesis .
qed

text \<open>
  C5. The mapping that \<open>dump_stats\<close> computes is a function of the log alone. A key
  \<open>protocol:port\<close> has a bucket exactly when some logged event has that key; the
  bucket's count is the number of these events, its byte total the sum of their
  \<open>data_len\<close>, its client set the set of their client addresses. The counts of all
  buckets add up to the length of the log.
\<close>

theorem stats_are_function_of_log:
  "dump_stats connection_log k =
     (if events_of k connection_log = [] then None
      else Some \<lparr>count = length (events_of k connection_log),
                 bytes = sum_list (map data_len (events_of k connection_log)),
                 clients = set (map client (events_of k connection_log))\<rparr>)
   \<and> (\<Sum>k\<in>dom (dump_stats connection_log). count (the (dump_stats connection_log k))) =
       length connection_log"
proof
  show "dump_stats connection_log k =
     (if events_of k connection_log = [] then None
      else Some \<lparr>count = length (events_of k connection_log),
                 bytes = sum_list (map data_len (events_of k connection_log)),
                 clients = set (map client (events_of k connection_log))\<rparr>)"
    by (simp add: dump_stats_closed)
  show "(\<Sum>k\<in>dom (dump_stats connection_log). count (the (dump_stats connection_log k))) =
       length connection_log"
    by (rule sum_counts)
qed

theorem stats_are_function_of_log_witness:
  "map key example_log = [''TCP-TEST:5353'', ''TCP-SSH:22'', ''TCP-TEST:5353'']
   \<and> dump_stats example_log ''TCP-TEST:5353'' =
       Some \<lparr>count = 2, bytes = 9, clients = {''10.0.0.1'', ''10.0.0.2''}\<rparr>
   \<and> (\<Sum>k\<in>dom (dump_stats example_log). count (the (dump_stats example_log k))) = 3"
proof -
  have k: "map key example_log = [''TCP-TEST:5353'', ''TCP-SSH:22'', ''TCP-TEST:5353'']"
    by (simp add: example_log_def log_connection_def key_def str_nat.simps dec_digit_def)
  have e: "events_of ''TCP-TEST:5353'' example_log = [example_log ! 0, example_log ! 2]"
    by (simp add: events_of_def example_log_def log_connection_def key_def str_nat.simps
        dec_digit_def)
  have v: "data_len (example_log ! 0) = 2" "data_len (example_log ! 2) = 7"
    "client (example_log ! 0) = ''10.0.0.1''" "client (example_log ! 2) = ''10.0.0.2''"
    "length example_log = 3"
    by (simp_all add: example_log_def log_connection_def)
  from stats_are_function_of_log [of example_log "''TCP-TEST:5353''"] k e v
  show ?thesis by simp
qed

end
